theory Spec2Isabelle
  imports Complex_Main
begin

section \<open>Data model (types.ts)\<close>

text \<open>
  The interfaces of the type declarations become records, the enums and string-literal
  unions become datatypes. A TypeScript \<^verbatim>\<open>number\<close> is modelled by \<^typ>\<open>rat\<close>:
  the session controller only copies numbers, it never computes with them. An optional
  field (\<^verbatim>\<open>diameter?: number\<close>) is an \<^typ>\<open>'a option\<close>. Field names that clash
  with each other or with the list library carry a prefix.
\<close>

datatype MachineOperationType =
  CIRCULAR_POCKET | RECTANGULAR_POCKET | DRILL | FACE_MILL | CONTOUR | UNKNOWN

datatype ToolType = END_MILL | BALL_MILL | DRILL_TOOL | FACE_MILL_TOOL

datatype StockShape = RECTANGULAR | CYLINDRICAL

record StockDimensions =
  shape :: StockShape
  stock_width :: rat
  stock_length :: rat
  stock_height :: rat
  stock_diameter :: rat
  material :: string

datatype SegmentType = LINE | ARC_CW | ARC_CCW

record PathSegment =
  seg_type :: SegmentType
  seg_x :: rat
  seg_y :: rat
  seg_cx :: "rat option"
  seg_cy :: "rat option"
  seg_radius :: "rat option"

record OperationParams =
  op_type :: MachineOperationType
  op_x :: rat
  op_y :: rat
  z_start :: rat
  z_depth :: rat
  op_diameter :: "rat option"
  op_width :: "rat option"
  op_length :: "rat option"
  path_segments :: "PathSegment list option"
  feed_rate :: rat
  spindle_speed :: rat
  tool_diameter :: rat
  tool_type :: ToolType
  step_down :: rat

record CNCOutput =
  gcode :: string
  explanation :: string
  cnc_operations :: "OperationParams list"
  cnc_stock :: StockDimensions

datatype Role = user | ai

record ChatMessage =
  msg_id :: string
  role :: Role
  msg_text :: string
  msg_attachment :: "string option"
  cncResult :: "CNCOutput option"

datatype AppMode = GENERATE | OPTIMIZE

datatype ModelOption = gemini_3_flash_preview | gemini_3_pro_preview | gemini_2_5_flash

section \<open>The collaborators of App.tsx\<close>

text \<open>
  \<^verbatim>\<open>Attachment\<close> and the result type of \<^verbatim>\<open>analyzeRequest\<close> are declared in
  services/geminiService, which is not part of the sources at hand. The records below
  hold exactly the fields that \<^verbatim>\<open>handleSendMessage\<close> reads.
\<close>

record Attachment =
  fileName :: string
  att_data :: string
  mimeType :: string

record AnalysisResult =
  operation :: OperationParams
  a_stock :: StockDimensions
  a_explanation :: string
  optimized_gcode :: "string option"

text \<open>
  What the \<^verbatim>\<open>catch\<close> clause receives is typed \<^verbatim>\<open>any\<close>. The fragment of
  JavaScript values modelled here: \<^verbatim>\<open>undefined\<close>, \<^verbatim>\<open>null\<close>, booleans, the safe
  integers (the numbers from \<^verbatim>\<open>Number.MIN_SAFE_INTEGER\<close> to
  \<^verbatim>\<open>Number.MAX_SAFE_INTEGER\<close>, which \<^verbatim>\<open>JSON.stringify\<close> prints as plain decimals),
  strings (as UTF-8 bytes) and objects. An object is given by its own enumerable
  properties in enumeration order, and by the properties that a read finds but
  \<^verbatim>\<open>JSON.stringify\<close> skips (non-enumerable or inherited, such as \<^verbatim>\<open>name\<close>,
  \<^verbatim>\<open>message\<close> and \<^verbatim>\<open>stack\<close> of an \<^verbatim>\<open>Error\<close>). Other numbers (fractions, integers
  beyond the safe range, which print rounded or in exponent form), arrays, functions,
  symbols and objects with a \<^verbatim>\<open>toJSON\<close> method are outside the fragment: the type has
  no value for them.
\<close>

typedef safe_integer = "{n :: int. - 9007199254740991 \<le> n \<and> n \<le> 9007199254740991}"
  morphisms int_of_safe Abs_safe_integer
  by (rule exI [of _ 0]) simp

datatype jsval =
  JUndefined
| JNull
| JBool bool
| JNum safe_integer
| JStr string
| JObj "(string \<times> jsval) list" "(string \<times> jsval) list"

datatype js_error = TypeError

text \<open>The outcome of the awaited analysis call: the promise resolves or rejects.\<close>

datatype outcome = Resolved AnalysisResult | Rejected jsval

subsection \<open>JavaScript primitives used by the handlers\<close>

text \<open>\<^verbatim>\<open>v.name\<close>, \<^verbatim>\<open>v.message\<close>: reading a property of \<^verbatim>\<open>undefined\<close> or \<^verbatim>\<open>null\<close>
  throws; a primitive has neither property; an object is searched.\<close>

fun get_prop :: "jsval \<Rightarrow> string \<Rightarrow> js_error + jsval" where
  "get_prop JUndefined k = Inl TypeError"
| "get_prop JNull k = Inl TypeError"
| "get_prop (JObj own hidden) k =
     (case map_of own k of
        Some v \<Rightarrow> Inr v
      | None \<Rightarrow> (case map_of hidden k of Some v \<Rightarrow> Inr v | None \<Rightarrow> Inr JUndefined))"
| "get_prop v k = Inr JUndefined"

text \<open>Truthiness, as \<^verbatim>\<open>||\<close> and \<^verbatim>\<open>&&\<close> test it.\<close>

fun truthy :: "jsval \<Rightarrow> bool" where
  "truthy JUndefined = False"
| "truthy JNull = False"
| "truthy (JBool b) = b"
| "truthy (JNum n) = (int_of_safe n \<noteq> 0)"
| "truthy (JStr s) = (s \<noteq> [])"
| "truthy (JObj own hidden) = True"

text \<open>\<^verbatim>\<open>String.prototype.includes\<close>: some suffix of the string starts with the needle.\<close>

fun str_includes :: "string \<Rightarrow> string \<Rightarrow> bool" where
  "str_includes [] t = (t = [])"
| "str_includes (c # cs) t = (take (length t) (c # cs) = t \<or> str_includes cs t)"

text \<open>\<^verbatim>\<open>v.includes(t)\<close> on a value of the fragment: only a string has the method.\<close>

fun js_includes :: "jsval \<Rightarrow> string \<Rightarrow> js_error + bool" where
  "js_includes (JStr s) t = Inr (str_includes s t)"
| "js_includes v t = Inl TypeError"

text \<open>Decimal rendering of a number (\<^verbatim>\<open>Date.now().toString()\<close>, numbers in JSON).\<close>

fun string_of_nat :: "nat \<Rightarrow> string" where
  "string_of_nat n =
     (if n < 10 then [''0123456789'' ! n]
      else string_of_nat (n div 10) @ [''0123456789'' ! (n mod 10)])"

declare string_of_nat.simps [simp del]

definition string_of_int :: "int \<Rightarrow> string" where
  "string_of_int i = (if i < 0 then CHR ''-'' # string_of_nat (nat (- i)) else string_of_nat (nat i))"

text \<open>\<^verbatim>\<open>JSON.stringify\<close>: the quoting of a string (QuoteJSONString), then the
  serialisation of a value. The result \<^verbatim>\<open>undefined\<close> is \<^const>\<open>None\<close>; a property
  whose value serialises to \<^verbatim>\<open>undefined\<close> is left out.\<close>

definition hex_digit :: "nat \<Rightarrow> char" where
  "hex_digit n = ''0123456789abcdef'' ! n"

definition quote_char :: "char \<Rightarrow> string" where
  "quote_char c =
     (if c = CHR 0x22 then [CHR 0x5C, CHR 0x22]
      else if c = CHR 0x5C then [CHR 0x5C, CHR 0x5C]
      else if c = CHR 0x08 then [CHR 0x5C, CHR ''b'']
      else if c = CHR 0x09 then [CHR 0x5C, CHR ''t'']
      else if c = CHR 0x0A then [CHR 0x5C, CHR ''n'']
      else if c = CHR 0x0C then [CHR 0x5C, CHR ''f'']
      else if c = CHR 0x0D then [CHR 0x5C, CHR ''r'']
      else if of_char c < (32::nat)
        then [CHR 0x5C, CHR ''u'', CHR ''0'', CHR ''0'',
              hex_digit (of_char c div 16), hex_digit (of_char c mod 16)]
      else [c])"

definition quote_json :: "string \<Rightarrow> string" where
  "quote_json s = CHR 0x22 # concat (map quote_char s) @ [CHR 0x22]"

fun join_comma :: "string list \<Rightarrow> string" where
  "join_comma [] = []"
| "join_comma [x] = x"
| "join_comma (x # y # ys) = x @ CHR '','' # join_comma (y # ys)"

fun json_stringify :: "jsval \<Rightarrow> string option"
  and json_props :: "(string \<times> jsval) list \<Rightarrow> string list" where
  "json_stringify JUndefined = None"
| "json_stringify JNull = Some ''null''"
| "json_stringify (JBool b) = Some (if b then ''true'' else ''false'')"
| "json_stringify (JNum n) = Some (string_of_int (int_of_safe n))"
| "json_stringify (JStr s) = Some (quote_json s)"
| "json_stringify (JObj own hidden) = Some (CHR ''{'' # join_comma (json_props own) @ ''}'')"
| "json_props [] = []"
| "json_props ((k, v) # kvs) =
     (case json_stringify v of
        None \<Rightarrow> json_props kvs
      | Some t \<Rightarrow> (quote_json k @ CHR '':'' # t) # json_props kvs)"

definition stop_text :: string where
  \<comment> \<open>handleStopGeneration: the text of stopMsg\<close>
  "stop_text = [
    CHR 0xF0, CHR 0x9F, CHR 0x9B, CHR 0x91, CHR 0x20, CHR 0xE5, CHR 0xB7, CHR 0xB2,
    CHR 0xE5, CHR 0x81, CHR 0x9C, CHR 0xE6, CHR 0xAD, CHR 0xA2, CHR 0xE7, CHR 0x94,
    CHR 0x9F, CHR 0xE6, CHR 0x88, CHR 0x90, CHR 0xE3, CHR 0x80, CHR 0x82]"

definition upload_prefix :: string where
  \<comment> \<open>handleSendMessage: the template literal in front of attachment.fileName\<close>
  "upload_prefix = [
    CHR 0xE5, CHR 0xB7, CHR 0xB2, CHR 0xE4, CHR 0xB8, CHR 0x8A, CHR 0xE4, CHR 0xBC,
    CHR 0xA0, CHR 0xE6, CHR 0x96, CHR 0x87, CHR 0xE4, CHR 0xBB, CHR 0xB6, CHR 0x3A,
    CHR 0x20]"

definition prompt_text_plain :: string where
  \<comment> \<open>default prompt for a text/plain attachment\<close>
  "prompt_text_plain = [
    CHR 0xE5, CHR 0x88, CHR 0x86, CHR 0xE6, CHR 0x9E, CHR 0x90, CHR 0xE8, CHR 0xBF,
    CHR 0x99, CHR 0xE4, CHR 0xB8, CHR 0xAA, CHR 0x20, CHR 0x44, CHR 0x58, CHR 0x46,
    CHR 0x2F, CHR 0xE6, CHR 0x96, CHR 0x87, CHR 0xE6, CHR 0x9C, CHR 0xAC, CHR 0xE6,
    CHR 0x96, CHR 0x87, CHR 0xE4, CHR 0xBB, CHR 0xB6, CHR 0xE7, CHR 0x9A, CHR 0x84,
    CHR 0xE6, CHR 0x95, CHR 0xB0, CHR 0xE6, CHR 0x8D, CHR 0xAE, CHR 0xE5, CHR 0xB9,
    CHR 0xB6, CHR 0xE7, CHR 0x94, CHR 0x9F, CHR 0xE6, CHR 0x88, CHR 0x90, CHR 0xE5,
    CHR 0x8A, CHR 0xA0, CHR 0xE5, CHR 0xB7, CHR 0xA5, CHR 0xE7, CHR 0xA8, CHR 0x8B,
    CHR 0xE5, CHR 0xBA, CHR 0x8F, CHR 0xE3, CHR 0x80, CHR 0x82]"

definition prompt_pdf :: string where
  \<comment> \<open>default prompt for an application/pdf attachment\<close>
  "prompt_pdf = [
    CHR 0xE5, CHR 0x88, CHR 0x86, CHR 0xE6, CHR 0x9E, CHR 0x90, CHR 0xE8, CHR 0xBF,
    CHR 0x99, CHR 0xE5, CHR 0xBC, CHR 0xA0, CHR 0x20, CHR 0x50, CHR 0x44, CHR 0x46,
    CHR 0x20, CHR 0xE5, CHR 0x9B, CHR 0xBE, CHR 0xE7, CHR 0xBA, CHR 0xB8, CHR 0xE5,
    CHR 0xB9, CHR 0xB6, CHR 0xE7, CHR 0x94, CHR 0x9F, CHR 0xE6, CHR 0x88, CHR 0x90,
    CHR 0xE5, CHR 0x8A, CHR 0xA0, CHR 0xE5, CHR 0xB7, CHR 0xA5, CHR 0xE7, CHR 0xA8,
    CHR 0x8B, CHR 0xE5, CHR 0xBA, CHR 0x8F, CHR 0xE3, CHR 0x80, CHR 0x82]"

definition prompt_other :: string where
  \<comment> \<open>default prompt otherwise\<close>
  "prompt_other = [
    CHR 0xE5, CHR 0x88, CHR 0x86, CHR 0xE6, CHR 0x9E, CHR 0x90, CHR 0xE8, CHR 0xBF,
    CHR 0x99, CHR 0xE4, CHR 0xB8, CHR 0xAA, CHR 0xE5, CHR 0x9B, CHR 0xBE, CHR 0xE5,
    CHR 0x83, CHR 0x8F, CHR 0x2F, CHR 0xE6, CHR 0xA8, CHR 0xA1, CHR 0xE5, CHR 0x9E,
    CHR 0x8B, CHR 0xE5, CHR 0xB9, CHR 0xB6, CHR 0xE7, CHR 0x94, CHR 0x9F, CHR 0xE6,
    CHR 0x88, CHR 0x90, CHR 0xE5, CHR 0x8A, CHR 0xA0, CHR 0xE5, CHR 0xB7, CHR 0xA5,
    CHR 0xE7, CHR 0xA8, CHR 0x8B, CHR 0xE5, CHR 0xBA, CHR 0x8F, CHR 0xE3, CHR 0x80,
    CHR 0x82]"

definition generic_message :: string where
  \<comment> \<open>the fallback of err.message\<close>
  "generic_message = [
    CHR 0xE6, CHR 0x97, CHR 0xA0, CHR 0xE6, CHR 0xB3, CHR 0x95, CHR 0xE5, CHR 0xA4,
    CHR 0x84, CHR 0xE7, CHR 0x90, CHR 0x86, CHR 0xE6, CHR 0x82, CHR 0xA8, CHR 0xE7,
    CHR 0x9A, CHR 0x84, CHR 0xE8, CHR 0xAF, CHR 0xB7, CHR 0xE6, CHR 0xB1, CHR 0x82,
    CHR 0xEF, CHR 0xBC, CHR 0x8C, CHR 0xE8, CHR 0xAF, CHR 0xB7, CHR 0xE7, CHR 0xA8,
    CHR 0x8D, CHR 0xE5, CHR 0x90, CHR 0x8E, CHR 0xE9, CHR 0x87, CHR 0x8D, CHR 0xE8,
    CHR 0xAF, CHR 0x95, CHR 0xE3, CHR 0x80, CHR 0x82]"

definition quota_message :: string where
  \<comment> \<open>the text shown for a 429 or quota failure\<close>
  "quota_message = [
    CHR 0xE2, CHR 0x9A, CHR 0xA0, CHR 0xEF, CHR 0xB8, CHR 0x8F, CHR 0x20, CHR 0x41,
    CHR 0x50, CHR 0x49, CHR 0x20, CHR 0xE8, CHR 0xB0, CHR 0x83, CHR 0xE7, CHR 0x94,
    CHR 0xA8, CHR 0xE9, CHR 0x85, CHR 0x8D, CHR 0xE9, CHR 0xA2, CHR 0x9D, CHR 0xE5,
    CHR 0xB7, CHR 0xB2, CHR 0xE8, CHR 0x80, CHR 0x97, CHR 0xE5, CHR 0xB0, CHR 0xBD,
    CHR 0x20, CHR 0x28, CHR 0x34, CHR 0x32, CHR 0x39, CHR 0x20, CHR 0x45, CHR 0x72,
    CHR 0x72, CHR 0x6F, CHR 0x72, CHR 0x29, CHR 0xE3, CHR 0x80, CHR 0x82, CHR 0xE8,
    CHR 0xAF, CHR 0xB7, CHR 0xE7, CHR 0xA8, CHR 0x8D, CHR 0xE4, CHR 0xBD, CHR 0x9C,
    CHR 0xE4, CHR 0xBC, CHR 0x91, CHR 0xE6, CHR 0x81, CHR 0xAF, CHR 0xEF, CHR 0xBC,
    CHR 0x8C, CHR 0xE6, CHR 0x88, CHR 0x96, CHR 0xE6, CHR 0xA3, CHR 0x80, CHR 0xE6,
    CHR 0x9F, CHR 0xA5, CHR 0xE6, CHR 0x82, CHR 0xA8, CHR 0xE7, CHR 0x9A, CHR 0x84,
    CHR 0x20, CHR 0x47, CHR 0x6F, CHR 0x6F, CHR 0x67, CHR 0x6C, CHR 0x65, CHR 0x20,
    CHR 0x41, CHR 0x49, CHR 0x20, CHR 0x53, CHR 0x74, CHR 0x75, CHR 0x64, CHR 0x69,
    CHR 0x6F, CHR 0x20, CHR 0xE9, CHR 0x85, CHR 0x8D, CHR 0xE9, CHR 0xA2, CHR 0x9D,
    CHR 0xE3, CHR 0x80, CHR 0x82]"

definition parse_message :: string where
  \<comment> \<open>the text shown for a JSON parse failure\<close>
  "parse_message = [
    CHR 0xE2, CHR 0x9A, CHR 0xA0, CHR 0xEF, CHR 0xB8, CHR 0x8F, CHR 0x20, CHR 0xE6,
    CHR 0x95, CHR 0xB0, CHR 0xE6, CHR 0x8D, CHR 0xAE, CHR 0xE8, CHR 0xA7, CHR 0xA3,
    CHR 0xE6, CHR 0x9E, CHR 0x90, CHR 0xE5, CHR 0xA4, CHR 0xB1, CHR 0xE8, CHR 0xB4,
    CHR 0xA5, CHR 0xEF, CHR 0xBC, CHR 0x8C, CHR 0xE5, CHR 0xBB, CHR 0xBA, CHR 0xE8,
    CHR 0xAE, CHR 0xAE, CHR 0xE6, CHR 0x82, CHR 0xA8, CHR 0xE6, CHR 0x8F, CHR 0x90,
    CHR 0xE4, CHR 0xBE, CHR 0x9B, CHR 0xE6, CHR 0x9B, CHR 0xB4, CHR 0xE6, CHR 0xB8,
    CHR 0x85, CHR 0xE6, CHR 0x99, CHR 0xB0, CHR 0xE7, CHR 0x9A, CHR 0x84, CHR 0xE6,
    CHR 0x8F, CHR 0x8F, CHR 0xE8, CHR 0xBF, CHR 0xB0, CHR 0xE6, CHR 0x88, CHR 0x96,
    CHR 0xE7, CHR 0xAE, CHR 0x80, CHR 0xE5, CHR 0x8D, CHR 0x95, CHR 0xE7, CHR 0x9A,
    CHR 0x84, CHR 0xE5, CHR 0x9B, CHR 0xBE, CHR 0xE7, CHR 0xBA, CHR 0xB8, CHR 0xE3,
    CHR 0x80, CHR 0x82]"

section \<open>The session state of App.tsx\<close>

text \<open>
  The component's \<^verbatim>\<open>useState\<close> cells and its \<^verbatim>\<open>useRef\<close> cell are the fields of one
  record. An \<^verbatim>\<open>AbortController\<close> is an object compared by identity: it is modelled by a
  number, \<^verbatim>\<open>new AbortController()\<close> takes the next unused one, and \<open>aborted\<close> holds
  the controllers whose \<^verbatim>\<open>abort()\<close> has been called (what the signal handed to the
  analysis call shows).
\<close>

datatype Tab = chat | sim | code

record AppState =
  isProcessing :: bool
  cncData :: "CNCOutput option"
  messages :: "ChatMessage list"
  activeTab :: Tab
  operations :: "OperationParams list"
  currentStock :: StockDimensions
  abortControllerRef :: "nat option"
  aborted :: "nat set"
  next_controller :: nat

definition default_stock :: StockDimensions where
  "default_stock =
     \<lparr> shape = RECTANGULAR, stock_width = 100, stock_length = 100, stock_height = 20,
       stock_diameter = 0, material = ''Aluminum'' \<rparr>"

definition initial_state :: AppState where
  "initial_state =
     \<lparr> isProcessing = False, cncData = None, messages = [], activeTab = chat,
       operations = [], currentStock = default_stock, abortControllerRef = None,
       aborted = {}, next_controller = 0 \<rparr>"

subsection \<open>handleReset\<close>

definition handleReset :: "AppState \<Rightarrow> AppState" where
  "handleReset s = s\<lparr> operations := [], cncData := None, messages := [], activeTab := chat \<rparr>"

subsection \<open>handleStopGeneration\<close>

text \<open>\<open>now\<close> is the value of \<^verbatim>\<open>Date.now()\<close> when the handler runs.\<close>

definition handleStopGeneration :: "nat \<Rightarrow> AppState \<Rightarrow> AppState" where
  "handleStopGeneration now s =
     (let s1 = (case abortControllerRef s of
                  Some c \<Rightarrow> s\<lparr> aborted := insert c (aborted s), abortControllerRef := None \<rparr>
                | None \<Rightarrow> s);
          stopMsg = \<lparr> msg_id = string_of_nat now, role = ai, msg_text = stop_text,
                      msg_attachment = None, cncResult = None \<rparr>
      in s1\<lparr> isProcessing := False, messages := messages s1 @ [stopMsg] \<rparr>)"

subsection \<open>handleSendMessage\<close>

text \<open>
  The handler is an \<^verbatim>\<open>async\<close> function with one \<^verbatim>\<open>await\<close>. It is modelled by two
  transitions: \<open>sendStart\<close> runs up to the \<^verbatim>\<open>await\<close> and returns, beside the new state,
  the pending call: the arguments given to \<^verbatim>\<open>analyzeRequest\<close> and what the rest of the
  function body holds in its closure (its own controller, the \<^verbatim>\<open>operations\<close> of the
  render that created the handler, the mode). \<open>sendSettle\<close> runs the rest of the body when
  the promise settles; other handlers may have run in between.
\<close>

record PendingCall =
  p_prompt :: string
  p_attachment :: "Attachment option"
  p_model :: ModelOption
  p_mode :: AppMode
  p_controller :: nat
  p_operations :: "OperationParams list"

definition default_prompt :: "string \<Rightarrow> Attachment option \<Rightarrow> AppMode \<Rightarrow> string" where
  "default_prompt text attachment mode =
     (if text = [] \<and> mode = GENERATE then
        (if map_option mimeType attachment = Some ''text/plain'' then prompt_text_plain
         else if map_option mimeType attachment = Some ''application/pdf'' then prompt_pdf
         else prompt_other)
      else text)"

definition sendStart ::
  "nat \<Rightarrow> string \<Rightarrow> Attachment option \<Rightarrow> ModelOption \<Rightarrow> AppMode \<Rightarrow> AppState \<Rightarrow> AppState \<times> PendingCall" where
  "sendStart now text attachment model mode s =
     (let userMsg = \<lparr> msg_id = string_of_nat now, role = user,
                      msg_text = (if text \<noteq> [] then text
                                  else (case attachment of
                                          Some a \<Rightarrow> upload_prefix @ fileName a
                                        | None \<Rightarrow> ''...'')),
                      msg_attachment = map_option att_data attachment, cncResult = None \<rparr>;
          controller = next_controller s
      in (s\<lparr> isProcessing := True, messages := messages s @ [userMsg],
             abortControllerRef := Some controller, next_controller := Suc controller \<rparr>,
          \<lparr> p_prompt = default_prompt text attachment mode, p_attachment = attachment,
            p_model = model, p_mode = mode, p_controller = controller,
            p_operations = operations s \<rparr>))"

text \<open>The \<^verbatim>\<open>finally\<close> block.\<close>

definition finally_block :: "PendingCall \<Rightarrow> AppState \<Rightarrow> AppState" where
  "finally_block p s =
     (if abortControllerRef s = Some (p_controller p)
      then s\<lparr> isProcessing := False, abortControllerRef := None \<rparr>
      else s)"

text \<open>
  The body of the \<^verbatim>\<open>try\<close> block after the \<^verbatim>\<open>await\<close>. \<open>gen\<close> stands for
  \<^verbatim>\<open>generateSiemensCode\<close> (services/cncGenerator), \<open>innerWidth\<close> for
  \<^verbatim>\<open>window.innerWidth\<close>.
\<close>

definition truthy_gcode :: "string option \<Rightarrow> bool" where
  "truthy_gcode g = (case g of None \<Rightarrow> False | Some t \<Rightarrow> t \<noteq> [])"

definition commit_result ::
  "(StockDimensions \<Rightarrow> OperationParams list \<Rightarrow> string \<Rightarrow> CNCOutput) \<Rightarrow> nat \<Rightarrow> nat \<Rightarrow>
   PendingCall \<Rightarrow> AnalysisResult \<Rightarrow> AppState \<Rightarrow> AppState" where
  "commit_result gen innerWidth now p analysis s =
     (let (result, s1) =
            (if p_mode p = OPTIMIZE \<and> truthy_gcode (optimized_gcode analysis) then
               (let ops = [operation analysis] in
                  (\<lparr> gcode = the (optimized_gcode analysis), explanation = a_explanation analysis,
                     cnc_operations = ops, cnc_stock = a_stock analysis \<rparr>,
                   s\<lparr> operations := ops, currentStock := a_stock analysis \<rparr>))
             else
               (let newOps = p_operations p @ [operation analysis] in
                  (gen (a_stock analysis) newOps (a_explanation analysis),
                   s\<lparr> operations := newOps, currentStock := a_stock analysis \<rparr>)));
          s2 = s1\<lparr> cncData := Some result \<rparr>;
          s3 = (if innerWidth < 1024 then s2\<lparr> activeTab := sim \<rparr> else s2);
          aiMsg = \<lparr> msg_id = string_of_nat (now + 1), role = ai, msg_text = explanation result,
                    msg_attachment = None, cncResult = Some result \<rparr>
      in s3\<lparr> messages := messages s3 @ [aiMsg] \<rparr>)"

text \<open>
  The \<^verbatim>\<open>catch\<close> clause. \<open>is_abort\<close> is its first test; \<open>error_text\<close> computes the text
  of the message that the clause appends. Both can throw a \<^verbatim>\<open>TypeError\<close> of their own,
  which leaves the clause before any state is set.
\<close>

definition is_abort :: "jsval \<Rightarrow> js_error + bool" where
  "is_abort err =
     (case get_prop err ''name'' of
        Inl e \<Rightarrow> Inl e
      | Inr n \<Rightarrow>
          if n = JStr ''AbortError'' then Inr True
          else (case get_prop err ''message'' of
                  Inl e \<Rightarrow> Inl e
                | Inr m \<Rightarrow> Inr (m = JStr ''Aborted'')))"

definition error_text :: "jsval \<Rightarrow> js_error + string" where
  "error_text err =
     (case get_prop err ''message'' of
        Inl e \<Rightarrow> Inl e
      | Inr m \<Rightarrow>
          (let errorMessage = (if truthy m then m else JStr generic_message) in
           case json_stringify err of
             None \<Rightarrow> Inl TypeError
           | Some errStr \<Rightarrow>
               if str_includes errStr ''429'' then Inr quota_message
               else (case (if truthy m then js_includes m ''429'' else Inr False) of
                       Inl e \<Rightarrow> Inl e
                     | Inr True \<Rightarrow> Inr quota_message
                     | Inr False \<Rightarrow>
                         if str_includes errStr ''quota'' then Inr quota_message
                         else (case errorMessage of
                                 JStr t \<Rightarrow> Inr (if str_includes t ''JSON'' then parse_message else t)
                               | _ \<Rightarrow> Inl TypeError))))"

datatype completion = Returns | Throws js_error

definition handle_error :: "nat \<Rightarrow> PendingCall \<Rightarrow> jsval \<Rightarrow> AppState \<Rightarrow> completion \<times> AppState" where
  "handle_error now p err s =
     (case is_abort err of
        Inl e \<Rightarrow> (Throws e, finally_block p s)
      | Inr True \<Rightarrow> (Returns, finally_block p s)
      | Inr False \<Rightarrow>
          (case error_text err of
             Inl e \<Rightarrow> (Throws e, finally_block p s)
           | Inr t \<Rightarrow>
               (let errorMsg = \<lparr> msg_id = string_of_nat (now + 1), role = ai, msg_text = t,
                                 msg_attachment = None, cncResult = None \<rparr>
                in (Returns, finally_block p (s\<lparr> messages := messages s @ [errorMsg] \<rparr>)))))"

definition sendSettle ::
  "(StockDimensions \<Rightarrow> OperationParams list \<Rightarrow> string \<Rightarrow> CNCOutput) \<Rightarrow> nat \<Rightarrow> nat \<Rightarrow>
   PendingCall \<Rightarrow> outcome \<Rightarrow> AppState \<Rightarrow> completion \<times> AppState" where
  "sendSettle gen innerWidth now p out s =
     (case out of
        Resolved analysis \<Rightarrow> (Returns, finally_block p (commit_result gen innerWidth now p analysis s))
      | Rejected err \<Rightarrow> handle_error now p err s)"


section \<open>The program compiler\<close>

text \<open>
  Modelled from the spec: \<^verbatim>\<open>generateSiemensCode\<close> (services/cncGenerator) is called by
  \<^verbatim>\<open>handleSendMessage\<close> but is not part of the sources at hand. The definitions of this
  section follow section 4.2 of the specification sentence by sentence. The compiler
  produces a list of motion blocks and renders them one by one. What the specification
  leaves open is a parameter: the clearance of the safe height, the partial retract of
  a peck, the material-clearing pass of a pocket layer, the raster of a face mill, and
  the concrete syntax of a block (which includes the rounding of the numbers).
  Numbers are exact rationals.
\<close>

text \<open>Modelled from the spec: the motion blocks that section 4.2 names: the program
  header, the tool change with spindle start, the feed rate, the rapid moves (in Z, in
  XY), the plunge, and the line and arc moves of a path (an arc with its direction, its
  end point and the centre or radius it was given).\<close>

datatype motion =
  Header
| Tool_Change ToolType rat
| Feed_Rate rat
| Rapid_Z rat
| Rapid_XY rat rat
| Plunge rat
| Cut_Line rat rat
| Cut_Arc bool rat rat "rat option" "rat option" "rat option"

text \<open>Modelled from the spec: the quantities and sub-passes that section 4.2 requires
  without fixing them.\<close>

record CompilerParams =
  clearance :: rat
  chip_retract :: rat
  pocket_pass :: "OperationParams \<Rightarrow> rat \<Rightarrow> motion list"
  face_passes :: "StockDimensions \<Rightarrow> OperationParams \<Rightarrow> motion list"
  render :: "motion \<Rightarrow> string"

text \<open>
  Modelled from the spec: the depths of the pecks of a drill and of the layers of a
  pocket, "in increments of step_down from z_start to z_depth, the final increment
  landing exactly on z_depth"; a step that is not positive gives a single pass.
\<close>

function depth_steps :: "rat \<Rightarrow> rat \<Rightarrow> rat \<Rightarrow> rat list" where
  "depth_steps z z_end step =
     (if 0 < step \<and> z_end < z - step then (z - step) # depth_steps (z - step) z_end step
      else [z_end])"
  by pat_completeness auto
termination
proof (relation "measure (\<lambda>(z, z_end, step). nat \<lceil>(z - z_end) / step\<rceil>)")
  show "wf (measure (\<lambda>(z, z_end, step). nat \<lceil>(z - z_end) / step\<rceil>))"
    by simp
next
  fix z z_end step :: rat
  assume a: "0 < step \<and> z_end < z - step"
  then have pos: "0 < (z - step - z_end) / step"
    by simp
  have "(z - z_end) / step = (z - step - z_end) / step + 1"
    using a by (simp add: field_simps)
  then have "\<lceil>(z - z_end) / step\<rceil> = \<lceil>(z - step - z_end) / step\<rceil> + 1"
    by simp
  moreover have "0 < \<lceil>(z - step - z_end) / step\<rceil>"
    using pos by simp
  ultimately show "((z - step, z_end, step), (z, z_end, step))
      \<in> measure (\<lambda>(z, z_end, step). nat \<lceil>(z - z_end) / step\<rceil>)"
    by simp
qed

declare depth_steps.simps [simp del]

text \<open>Modelled from the spec: "a safe Z strictly above z_start and above stock height".\<close>

definition safe_z :: "CompilerParams \<Rightarrow> StockDimensions \<Rightarrow> OperationParams \<Rightarrow> rat" where
  "safe_z cp st op = max (z_start op) (stock_height st) + clearance cp"

text \<open>Modelled from the spec: "a tool-change/spindle-start block only when tool_type or
  spindle_speed differs from the previous operation".\<close>

definition needs_tool_change :: "OperationParams option \<Rightarrow> OperationParams \<Rightarrow> bool" where
  "needs_tool_change prev op =
     (case prev of
        None \<Rightarrow> True
      | Some q \<Rightarrow> tool_type q \<noteq> tool_type op \<or> spindle_speed q \<noteq> spindle_speed op)"

text \<open>Modelled from the spec: "a direct one-to-one translation of the ordered PathSegment
  list into line/clockwise-arc/counter-clockwise-arc motion blocks".\<close>

definition segment_motion :: "PathSegment \<Rightarrow> motion" where
  "segment_motion sg =
     (case seg_type sg of
        LINE \<Rightarrow> Cut_Line (seg_x sg) (seg_y sg)
      | ARC_CW \<Rightarrow> Cut_Arc True (seg_x sg) (seg_y sg) (seg_cx sg) (seg_cy sg) (seg_radius sg)
      | ARC_CCW \<Rightarrow> Cut_Arc False (seg_x sg) (seg_y sg) (seg_cx sg) (seg_cy sg) (seg_radius sg))"

text \<open>Modelled from the spec: "each peck followed by a partial retract for chip
  clearance".\<close>

definition peck :: "CompilerParams \<Rightarrow> rat \<Rightarrow> motion list" where
  "peck cp z = [Plunge z, Rapid_Z (z + chip_retract cp)]"

text \<open>Modelled from the spec: a pocket layer, the step down to the layer's depth and the
  "material-clearing pass" at that depth.\<close>

definition layer :: "CompilerParams \<Rightarrow> OperationParams \<Rightarrow> rat \<Rightarrow> motion list" where
  "layer cp op z = Plunge z # pocket_pass cp op z"

text \<open>Modelled from the spec: the translation by operation kind (item 3 of section 4.2).
  The drill: "rapid to (x,y) at safe Z; if step_down > 0, peck ...; if step_down == 0,
  single plunge to z_depth" (no motion of the drill depends on the diameter field). The
  pockets: one layer per depth step. The face mill: the raster "at z_depth". The contour:
  "one plunge to z_depth", the segments one by one, "followed by retract"; an absent
  segment list is an empty one. An unknown operation "carries no geometry".\<close>

definition translate :: "CompilerParams \<Rightarrow> StockDimensions \<Rightarrow> OperationParams \<Rightarrow> motion list" where
  "translate cp st op =
     (case op_type op of
        DRILL \<Rightarrow>
          Rapid_XY (op_x op) (op_y op) #
          (if 0 < step_down op
           then concat (map (peck cp) (depth_steps (z_start op) (z_depth op) (step_down op)))
           else [Plunge (z_depth op)])
      | CIRCULAR_POCKET \<Rightarrow>
          concat (map (layer cp op) (depth_steps (z_start op) (z_depth op) (step_down op)))
      | RECTANGULAR_POCKET \<Rightarrow>
          concat (map (layer cp op) (depth_steps (z_start op) (z_depth op) (step_down op)))
      | FACE_MILL \<Rightarrow> Plunge (z_depth op) # face_passes cp st op
      | CONTOUR \<Rightarrow>
          Plunge (z_depth op) #
          map segment_motion (case path_segments op of None \<Rightarrow> [] | Some segs \<Rightarrow> segs) @
          [Rapid_Z (safe_z cp st op)]
      | UNKNOWN \<Rightarrow> [])"

text \<open>Modelled from the spec: one block per operation (item 2 of section 4.2): the
  retract to the safe height, the tool change if needed, the feed rate once, the motion.\<close>

definition operation_block ::
  "CompilerParams \<Rightarrow> StockDimensions \<Rightarrow> OperationParams option \<Rightarrow> OperationParams \<Rightarrow> motion list" where
  "operation_block cp st prev op =
     Rapid_Z (safe_z cp st op) #
     (if needs_tool_change prev op then [Tool_Change (tool_type op) (spindle_speed op)] else []) @
     Feed_Rate (feed_rate op) # translate cp st op"

text \<open>Modelled from the spec: "walk operations in ledger order", each block seeing the
  operation before it; "emit one program header", then the blocks.\<close>

fun operation_blocks ::
  "CompilerParams \<Rightarrow> StockDimensions \<Rightarrow> OperationParams option \<Rightarrow> OperationParams list \<Rightarrow>
   motion list list" where
  "operation_blocks cp st prev [] = []"
| "operation_blocks cp st prev (op # ops) =
     operation_block cp st prev op # operation_blocks cp st (Some op) ops"

definition program :: "CompilerParams \<Rightarrow> StockDimensions \<Rightarrow> OperationParams list \<Rightarrow> motion list" where
  "program cp st ops = Header # concat (operation_blocks cp st None ops)"

text \<open>Modelled from the spec: "(stock, ordered operations, explanation text) to program
  text + echo of inputs".\<close>

definition generateSiemensCode ::
  "CompilerParams \<Rightarrow> StockDimensions \<Rightarrow> OperationParams list \<Rightarrow> string \<Rightarrow> CNCOutput" where
  "generateSiemensCode cp st ops expl =
     \<lparr> gcode = concat (map (render cp) (program cp st ops)), explanation = expl,
       cnc_operations = ops, cnc_stock = st \<rparr>"

text \<open>An observation on a list of motion blocks: the depths of its plunges, in order.\<close>

fun plunges :: "motion list \<Rightarrow> rat list" where
  "plunges [] = []"
| "plunges (Plunge z # ms) = z # plunges ms"
| "plunges (m # ms) = plunges ms"


section \<open>Turns and example data\<close>




text \<open>Concrete data for the examples: a drill operation (the one of section 8 of the
  specification), a cylindrical stock, two analyses, and compiler parameters.\<close>

definition ex_drill :: OperationParams where
  "ex_drill =
     \<lparr> op_type = DRILL, op_x = 10, op_y = 20, z_start = 0, z_depth = - 10,
       op_diameter = Some 8, op_width = None, op_length = None, path_segments = None,
       feed_rate = 120, spindle_speed = 3000, tool_diameter = 8, tool_type = DRILL_TOOL,
       step_down = 3 \<rparr>"

definition ex_stock :: StockDimensions where
  "ex_stock =
     \<lparr> shape = CYLINDRICAL, stock_width = 0, stock_length = 0, stock_height = 30,
       stock_diameter = 50, material = ''Steel'' \<rparr>"

definition ex_analysis :: AnalysisResult where
  "ex_analysis =
     \<lparr> operation = ex_drill, a_stock = ex_stock, a_explanation = ''drill one hole'',
       optimized_gcode = None \<rparr>"

definition ex_analysis_text :: AnalysisResult where
  "ex_analysis_text =
     \<lparr> operation = ex_drill, a_stock = ex_stock, a_explanation = ''optimized'',
       optimized_gcode = Some ''G0 Z50'' \<rparr>"

definition ex_render :: "motion \<Rightarrow> string" where
  "ex_render m =
     (case m of
        Header \<Rightarrow> ''H;''
      | Tool_Change t s \<Rightarrow> ''T;''
      | Feed_Rate f \<Rightarrow> ''F;''
      | Rapid_Z z \<Rightarrow> ''R;''
      | Rapid_XY x y \<Rightarrow> ''M;''
      | Plunge z \<Rightarrow> ''P;''
      | Cut_Line x y \<Rightarrow> ''L;''
      | Cut_Arc cw x y cx cy r \<Rightarrow> ''A;'')"

definition ex_params :: CompilerParams where
  "ex_params =
     \<lparr> clearance = 5, chip_retract = 1, pocket_pass = (\<lambda>op z. []),
       face_passes = (\<lambda>st op. []), render = ex_render \<rparr>"

definition ex_started :: "AppState \<times> PendingCall" where
  "ex_started = sendStart 1000 ''drill a hole'' None gemini_2_5_flash GENERATE initial_state"

definition ex_stopped :: AppState where
  "ex_stopped = handleStopGeneration 2000 (fst ex_started)"

definition ex_stale :: "completion \<times> AppState" where
  "ex_stale =
     sendSettle (generateSiemensCode ex_params) 1280 3000 (snd ex_started)
       (Resolved ex_analysis) ex_stopped"

definition ex_turn1 :: AppState where
  "ex_turn1 =
     snd (sendSettle (generateSiemensCode ex_params) 1280 3000 (snd ex_started)
            (Resolved ex_analysis) (fst ex_started))"

definition ex_started2 :: "AppState \<times> PendingCall" where
  "ex_started2 = sendStart 4000 ''make it faster'' None gemini_2_5_flash OPTIMIZE ex_turn1"

definition ex_turn2 :: "completion \<times> AppState" where
  "ex_turn2 =
     sendSettle (generateSiemensCode ex_params) 1280 5000 (snd ex_started2)
       (Resolved ex_analysis) (fst ex_started2)"


text \<open>Rejections of the analysis call: two abort errors (a \<^verbatim>\<open>DOMException\<close> named
  \<^verbatim>\<open>AbortError\<close>, an \<^verbatim>\<open>Error\<close> with the message \<^verbatim>\<open>Aborted\<close>), the payloads of
  section 8 of the specification, and the turn of \<open>ex_started\<close> failing with one of them.\<close>

definition ex_abort_error :: jsval where
  "ex_abort_error =
     JObj [] [(''name'', JStr ''AbortError''), (''message'', JStr ''signal is aborted without reason'')]"

definition ex_aborted_error :: jsval where
  "ex_aborted_error = JObj [] [(''name'', JStr ''Error''), (''message'', JStr ''Aborted'')]"

definition ex_quota_payload :: jsval where
  "ex_quota_payload = JObj [(''code'', JNum (Abs_safe_integer 429))] []"

definition ex_parse_error :: jsval where
  "ex_parse_error =
     JObj [] [(''name'', JStr ''SyntaxError''),
              (''message'', JStr ''Unexpected token in JSON at position 4'')]"

definition ex_parse_string :: jsval where
  "ex_parse_string = JStr ''Unexpected token in JSON at position 4''"

definition ex_network_string :: jsval where
  "ex_network_string = JStr ''network down''"

definition ex_failed :: "jsval \<Rightarrow> completion \<times> AppState" where
  "ex_failed err =
     sendSettle (generateSiemensCode ex_params) 1280 3000 (snd ex_started) (Rejected err)
       (fst ex_started)"








section \<open>Properties of the session controller\<close>

lemma finally_block_fields [simp]:
  "operations (finally_block p s) = operations s"
  "currentStock (finally_block p s) = currentStock s"
  "cncData (finally_block p s) = cncData s"
  "messages (finally_block p s) = messages s"
  "activeTab (finally_block p s) = activeTab s"
  "aborted (finally_block p s) = aborted s"
  by (simp_all add: finally_block_def)

lemma finally_block_stale:
  "abortControllerRef s \<noteq> Some (p_controller p) \<Longrightarrow> finally_block p s = s"
  by (simp add: finally_block_def)

lemma commit_result_fields:
  "operations (commit_result gen w now p a s) =
     (if p_mode p = OPTIMIZE \<and> truthy_gcode (optimized_gcode a) then [operation a]
      else p_operations p @ [operation a])"
  "currentStock (commit_result gen w now p a s) = a_stock a"
  "isProcessing (commit_result gen w now p a s) = isProcessing s"
  "abortControllerRef (commit_result gen w now p a s) = abortControllerRef s"
  "aborted (commit_result gen w now p a s) = aborted s"
  by (simp_all add: commit_result_def Let_def split_def)

lemma commit_result_output:
  "cncData (commit_result gen w now p a s) =
     Some (if p_mode p = OPTIMIZE \<and> truthy_gcode (optimized_gcode a)
           then \<lparr> gcode = the (optimized_gcode a), explanation = a_explanation a,
                  cnc_operations = [operation a], cnc_stock = a_stock a \<rparr>
           else gen (a_stock a) (p_operations p @ [operation a]) (a_explanation a))"
  by (simp add: commit_result_def Let_def split_def)

lemma commit_result_messages:
  "messages (commit_result gen w now p a s) =
     messages s @
     [\<lparr> msg_id = string_of_nat (now + 1), role = ai,
        msg_text = explanation (the (cncData (commit_result gen w now p a s))),
        msg_attachment = None,
        cncResult = cncData (commit_result gen w now p a s) \<rparr>]"
  by (simp add: commit_result_def Let_def split_def)

lemma ex_turn1_stock: "currentStock ex_turn1 = ex_stock"
  by (simp add: ex_turn1_def sendSettle_def commit_result_fields ex_analysis_def)

subsection \<open>Reset\<close>

text \<open>
  Claim C3, as the code has it: from any session state \<^verbatim>\<open>handleReset\<close> empties the
  operations list, clears the compiled output and the transcript and shows the chat tab,
  all in one transition. It takes no default value and does not touch the stock, the
  processing flag or the current abort controller.
\<close>

theorem handleReset_effect:
  "operations (handleReset s) = [] \<and> cncData (handleReset s) = None \<and>
   messages (handleReset s) = [] \<and> activeTab (handleReset s) = chat \<and>
   currentStock (handleReset s) = currentStock s \<and>
   isProcessing (handleReset s) = isProcessing s \<and>
   abortControllerRef (handleReset s) = abortControllerRef s"
  by (simp add: handleReset_def)

text \<open>
  Claim C3 as stated fails: after one completed turn whose analysis reports a
  cylindrical steel stock, a reset leaves that stock in place; the stock is not back at
  the default (the initial value of the state cell, the only default the code has).
\<close>

theorem reset_keeps_stock_counterexample:
  "\<not> (operations (handleReset ex_turn1) = [] \<and>
      currentStock (handleReset ex_turn1) = default_stock \<and>
      cncData (handleReset ex_turn1) = None)"
  by (simp add: handleReset_def ex_turn1_stock ex_stock_def default_stock_def)


subsection \<open>Facts about the handlers\<close>

lemma sendStart_fields:
  "operations (fst (sendStart now text att model mode s)) = operations s"
  "currentStock (fst (sendStart now text att model mode s)) = currentStock s"
  "cncData (fst (sendStart now text att model mode s)) = cncData s"
  "isProcessing (fst (sendStart now text att model mode s)) = True"
  "abortControllerRef (fst (sendStart now text att model mode s)) = Some (next_controller s)"
  "aborted (fst (sendStart now text att model mode s)) = aborted s"
  "p_controller (snd (sendStart now text att model mode s)) = next_controller s"
  "p_operations (snd (sendStart now text att model mode s)) = operations s"
  "p_mode (snd (sendStart now text att model mode s)) = mode"
  by (simp_all add: sendStart_def Let_def)

lemma sendStart_messages:
  "messages (fst (sendStart now text att model mode s)) =
     messages s @
     [\<lparr> msg_id = string_of_nat now, role = user,
        msg_text = (if text \<noteq> [] then text
                    else (case att of Some a \<Rightarrow> upload_prefix @ fileName a | None \<Rightarrow> ''...'')),
        msg_attachment = map_option att_data att, cncResult = None \<rparr>]"
  by (simp add: sendStart_def Let_def)

lemma handleStopGeneration_fields:
  "operations (handleStopGeneration now s) = operations s"
  "currentStock (handleStopGeneration now s) = currentStock s"
  "cncData (handleStopGeneration now s) = cncData s"
  "isProcessing (handleStopGeneration now s) = False"
  "abortControllerRef (handleStopGeneration now s) = None"
  "messages (handleStopGeneration now s) =
     messages s @ [\<lparr> msg_id = string_of_nat now, role = ai, msg_text = stop_text,
                      msg_attachment = None, cncResult = None \<rparr>]"
  by (simp_all add: handleStopGeneration_def Let_def split: option.splits)

lemma handleStopGeneration_aborted:
  "abortControllerRef s = Some c \<Longrightarrow> aborted (handleStopGeneration now s) = insert c (aborted s)"
  by (simp add: handleStopGeneration_def Let_def)

lemma abort_settle:
  "is_abort err = Inr True \<Longrightarrow>
   sendSettle gen w now p (Rejected err) s = (Returns, finally_block p s)"
  by (simp add: sendSettle_def handle_error_def)

lemma is_abort_iff:
  "is_abort err = Inr True \<longleftrightarrow>
     get_prop err ''name'' = Inr (JStr ''AbortError'') \<or>
     get_prop err ''message'' = Inr (JStr ''Aborted'')"
  by (cases err) (auto simp: is_abort_def split: sum.splits option.splits)

lemma ex_abort_error_is_abort: "is_abort ex_abort_error = Inr True"
  by (simp add: is_abort_def ex_abort_error_def)

lemma ex_stopped_ref: "abortControllerRef ex_stopped = None"
  by (simp add: ex_stopped_def handleStopGeneration_fields)

lemma ex_turn1_operations: "operations ex_turn1 = [ex_drill]"
  by (simp add: ex_turn1_def sendSettle_def commit_result_fields ex_analysis_def
      ex_started_def sendStart_fields initial_state_def)

lemma ex_started_messages: "map msg_text (messages (fst ex_started)) = [''drill a hole'']"
  by (simp add: ex_started_def sendStart_messages initial_state_def)

lemma ex_quota_payload_json:
  "json_stringify ex_quota_payload =
     Some [CHR ''{'', CHR 0x22, CHR ''c'', CHR ''o'', CHR ''d'', CHR ''e'', CHR 0x22, CHR '':'',
           CHR ''4'', CHR ''2'', CHR ''9'', CHR ''}'']"
proof -
  have r: "int_of_safe (Abs_safe_integer 429) = 429"
    by (simp add: Abs_safe_integer_inverse)
  have d: "string_of_int 429 = ''429''"
    by code_simp
  have k: "quote_json ''code'' = [CHR 0x22, CHR ''c'', CHR ''o'', CHR ''d'', CHR ''e'', CHR 0x22]"
    by code_simp
  show ?thesis
    by (simp add: ex_quota_payload_def r d k)
qed

lemma error_settle:
  "is_abort err = Inr False \<Longrightarrow> error_text err = Inr t \<Longrightarrow>
   sendSettle gen w now p (Rejected err) s =
     (Returns, finally_block p (s\<lparr> messages := messages s @
        [\<lparr> msg_id = string_of_nat (now + 1), role = ai, msg_text = t,
           msg_attachment = None, cncResult = None \<rparr>] \<rparr>))"
  by (simp add: sendSettle_def handle_error_def)

subsection \<open>Cancellation\<close>

text \<open>
  Claim C6: when the user cancels a turn before the analysis call resolves, the
  operations and the stock are what they were before the turn, exactly one message, the
  "stopped" message, is appended to the transcript, and the controller is idle: the
  processing flag is off and no controller is current. The signal of the pending call is
  aborted, and when the call then rejects with an abort error the state stays as it is.
\<close>

theorem cancel_before_resolve:
  assumes "started = sendStart tstart input att model mode s"
    and "stopped = handleStopGeneration tstop (fst started)"
  shows "operations stopped = operations s \<and> currentStock stopped = currentStock s \<and>
     messages stopped =
       messages (fst started) @
       [\<lparr> msg_id = string_of_nat tstop, role = ai, msg_text = stop_text,
          msg_attachment = None, cncResult = None \<rparr>] \<and>
     isProcessing (fst started) \<and> \<not> isProcessing stopped \<and>
     abortControllerRef stopped = None \<and>
     p_controller (snd started) \<in> aborted stopped \<and>
     (is_abort err = Inr True \<longrightarrow>
        sendSettle gen w tsettle (snd started) (Rejected err) stopped = (Returns, stopped))"
  using assms
  by (simp add: sendStart_fields handleStopGeneration_fields handleStopGeneration_aborted
      abort_settle finally_block_stale)

text \<open>
  Witness for C6: the turn of \<open>ex_started\<close>, stopped, then rejected with an
  \<^verbatim>\<open>AbortError\<close>.
\<close>

theorem cancel_before_resolve_witness:
  "operations ex_stopped = [] \<and> currentStock ex_stopped = default_stock \<and>
   map msg_text (messages ex_stopped) = [''drill a hole'', stop_text] \<and>
   isProcessing (fst ex_started) \<and> \<not> isProcessing ex_stopped \<and>
   abortControllerRef ex_stopped = None \<and> 0 \<in> aborted ex_stopped \<and>
   sendSettle (generateSiemensCode ex_params) 1280 3000 (snd ex_started)
     (Rejected ex_abort_error) ex_stopped = (Returns, ex_stopped)"
  using cancel_before_resolve [OF ex_started_def ex_stopped_def,
      where err = ex_abort_error and gen = "generateSiemensCode ex_params"
      and w = 1280 and tsettle = 3000]
  by (simp add: sendStart_messages sendStart_fields initial_state_def ex_started_def
      ex_abort_error_is_abort)

text \<open>
  Claim C10: if the analysis call rejects with an error whose name is
  \<^verbatim>\<open>AbortError\<close> or whose message is \<^verbatim>\<open>Aborted\<close>, the turn handler returns without
  appending a message and without changing the operations, the stock or the compiled
  output; over a cancelled turn the transcript grows by the user message of the turn's
  start and the stop message of the stop handler, and by nothing else.
\<close>

theorem abort_rejection_ignored:
  assumes "get_prop err ''name'' = Inr (JStr ''AbortError'') \<or>
           get_prop err ''message'' = Inr (JStr ''Aborted'')"
  shows "fst (sendSettle gen w now p (Rejected err) s) = Returns \<and>
     messages (snd (sendSettle gen w now p (Rejected err) s)) = messages s \<and>
     operations (snd (sendSettle gen w now p (Rejected err) s)) = operations s \<and>
     currentStock (snd (sendSettle gen w now p (Rejected err) s)) = currentStock s \<and>
     cncData (snd (sendSettle gen w now p (Rejected err) s)) = cncData s \<and>
     messages (snd (sendSettle gen w now (snd (sendStart tstart input att model mode sinit)) (Rejected err)
                 (handleStopGeneration tstop (fst (sendStart tstart input att model mode sinit))))) =
       messages sinit @
       [\<lparr> msg_id = string_of_nat tstart, role = user,
          msg_text = (if input \<noteq> [] then input
                      else (case att of Some a \<Rightarrow> upload_prefix @ fileName a | None \<Rightarrow> ''...'')),
          msg_attachment = map_option att_data att, cncResult = None \<rparr>,
        \<lparr> msg_id = string_of_nat tstop, role = ai, msg_text = stop_text,
          msg_attachment = None, cncResult = None \<rparr>]"
proof -
  from assms have "is_abort err = Inr True"
    by (simp add: is_abort_iff)
  then have "sendSettle gen w now q (Rejected err) t = (Returns, finally_block q t)" for q t
    by (rule abort_settle)
  then show ?thesis
    by (simp add: handleStopGeneration_fields sendStart_messages)
qed

text \<open>
  Witness for C10: the turn of \<open>ex_started\<close> rejected with \<^verbatim>\<open>Error("Aborted")\<close>,
  without and with the stop handler in between.
\<close>

theorem abort_rejection_ignored_witness:
  "get_prop ex_aborted_error ''message'' = Inr (JStr ''Aborted'') \<and>
   fst (sendSettle (generateSiemensCode ex_params) 1280 3000 (snd ex_started)
          (Rejected ex_aborted_error) (fst ex_started)) = Returns \<and>
   map msg_text (messages (snd (sendSettle (generateSiemensCode ex_params) 1280 3000
          (snd ex_started) (Rejected ex_aborted_error) (fst ex_started)))) = [''drill a hole''] \<and>
   operations (snd (sendSettle (generateSiemensCode ex_params) 1280 3000 (snd ex_started)
          (Rejected ex_aborted_error) (fst ex_started))) = [] \<and>
   map msg_text (messages (snd (sendSettle (generateSiemensCode ex_params) 1280 3000
          (snd ex_started) (Rejected ex_aborted_error) ex_stopped))) = [''drill a hole'', stop_text]"
proof -
  have h: "get_prop ex_aborted_error ''name'' = Inr (JStr ''AbortError'') \<or>
           get_prop ex_aborted_error ''message'' = Inr (JStr ''Aborted'')"
    by (simp add: ex_aborted_error_def)
  have m: "get_prop ex_aborted_error ''message'' = Inr (JStr ''Aborted'')"
    by (simp add: ex_aborted_error_def)
  show ?thesis
    using abort_rejection_ignored [OF h, where gen = "generateSiemensCode ex_params"
        and w = 1280 and now = 3000 and p = "snd ex_started" and s = "fst ex_started"
        and tstart = 1000 and input = "''drill a hole''" and att = None
        and model = gemini_2_5_flash and mode = GENERATE and sinit = initial_state
        and tstop = 2000] m
    by (simp add: ex_started_def [symmetric] ex_stopped_def [symmetric])
      (simp add: ex_started_def sendStart_messages sendStart_fields initial_state_def)
qed

text \<open>
  Claim C1 as stated fails: the turn of \<open>ex_started\<close> is cancelled, so that its
  controller is no longer the current one, and then its analysis call resolves. The
  handler returns normally, and the operations, the stock and the compiled output have
  all changed.
\<close>

theorem stale_result_counterexample:
  "abortControllerRef ex_stopped \<noteq> Some (p_controller (snd ex_started)) \<and>
   fst ex_stale = Returns \<and>
   operations ex_stopped = [] \<and> operations (snd ex_stale) = [ex_drill] \<and>
   currentStock ex_stopped = default_stock \<and> currentStock (snd ex_stale) = ex_stock \<and>
   ex_stock \<noteq> default_stock \<and>
   cncData ex_stopped = None \<and> cncData (snd ex_stale) \<noteq> None"
  by (simp add: ex_stale_def ex_stopped_ref sendSettle_def commit_result_fields commit_result_output)
    (simp add: ex_stopped_def handleStopGeneration_fields ex_started_def sendStart_fields
      initial_state_def ex_analysis_def ex_stock_def default_stock_def)

text \<open>
  Claim C1, as the code has it: when the analysis call of a turn resolves and the turn's
  controller is no longer the current one, the result is committed all the same: the
  operations, the stock and the compiled output are set as in any other turn and one
  message is appended. The comparison of the controllers in the \<^verbatim>\<open>finally\<close> block
  only keeps the late call from clearing the processing flag and the current
  controller.
\<close>

theorem stale_result_committed:
  assumes "abortControllerRef s \<noteq> Some (p_controller p)"
  shows "sendSettle gen w now p (Resolved a) s = (Returns, commit_result gen w now p a s) \<and>
     operations (commit_result gen w now p a s) =
       (if p_mode p = OPTIMIZE \<and> truthy_gcode (optimized_gcode a) then [operation a]
        else p_operations p @ [operation a]) \<and>
     currentStock (commit_result gen w now p a s) = a_stock a \<and>
     cncData (commit_result gen w now p a s) =
       Some (if p_mode p = OPTIMIZE \<and> truthy_gcode (optimized_gcode a)
             then \<lparr> gcode = the (optimized_gcode a), explanation = a_explanation a,
                    cnc_operations = [operation a], cnc_stock = a_stock a \<rparr>
             else gen (a_stock a) (p_operations p @ [operation a]) (a_explanation a)) \<and>
     length (messages (commit_result gen w now p a s)) = Suc (length (messages s)) \<and>
     isProcessing (commit_result gen w now p a s) = isProcessing s \<and>
     abortControllerRef (commit_result gen w now p a s) = abortControllerRef s"
  using assms
  by (simp add: sendSettle_def finally_block_stale commit_result_fields commit_result_output
      commit_result_messages)

text \<open>
  Witness for C1: the cancelled turn of \<open>ex_started\<close>, resolving late.
\<close>

theorem stale_result_committed_witness:
  "abortControllerRef ex_stopped \<noteq> Some (p_controller (snd ex_started)) \<and>
   ex_stale = (Returns, commit_result (generateSiemensCode ex_params) 1280 3000 (snd ex_started)
                 ex_analysis ex_stopped) \<and>
   operations (snd ex_stale) = [ex_drill] \<and> \<not> isProcessing (snd ex_stale) \<and>
   abortControllerRef (snd ex_stale) = None"
proof -
  have h: "abortControllerRef ex_stopped \<noteq> Some (p_controller (snd ex_started))"
    by (simp add: ex_stopped_ref)
  show ?thesis
    using h stale_result_committed [OF h, where gen = "generateSiemensCode ex_params"
        and w = 1280 and now = 3000 and a = ex_analysis]
    by (simp add: ex_stale_def)
      (simp add: ex_stopped_def handleStopGeneration_fields ex_started_def sendStart_fields
        initial_state_def ex_analysis_def truthy_gcode_def)
qed

subsection \<open>Replace mode\<close>

text \<open>
  Claim C2 as stated fails: a turn in mode \<^verbatim>\<open>OPTIMIZE\<close> whose analysis carries no
  program text, started with one operation in the list, completes with two operations
  in the list.
\<close>

theorem replace_mode_counterexample:
  "p_mode (snd ex_started2) = OPTIMIZE \<and> fst ex_turn2 = Returns \<and>
   operations (fst ex_started2) = [ex_drill] \<and>
   operations (snd ex_turn2) = [ex_drill, ex_drill] \<and>
   operations (snd ex_turn2) \<noteq> [operation ex_analysis]"
  by (simp add: ex_turn2_def sendSettle_def commit_result_fields ex_started2_def
      sendStart_fields ex_turn1_operations ex_analysis_def truthy_gcode_def)

text \<open>
  Claim C2, as the code has it: in mode \<^verbatim>\<open>OPTIMIZE\<close>, a turn whose analysis
  carries non-empty program text completes with the operations list being the singleton
  of the newly analyzed operation, whatever the list held before, with the stock of the
  analysis and with that text as the program. When the analysis carries no program text
  (or an empty one) the turn takes the other branch: the operation is appended to the
  operations the turn started with and the compiler runs on that list.
\<close>

theorem replace_mode_singleton:
  assumes "p_mode p = OPTIMIZE"
  shows "(truthy_gcode (optimized_gcode a) \<longrightarrow>
       fst (sendSettle gen w now p (Resolved a) s) = Returns \<and>
       operations (snd (sendSettle gen w now p (Resolved a) s)) = [operation a] \<and>
       currentStock (snd (sendSettle gen w now p (Resolved a) s)) = a_stock a \<and>
       cncData (snd (sendSettle gen w now p (Resolved a) s)) =
         Some \<lparr> gcode = the (optimized_gcode a), explanation = a_explanation a,
                cnc_operations = [operation a], cnc_stock = a_stock a \<rparr>) \<and>
     (\<not> truthy_gcode (optimized_gcode a) \<longrightarrow>
       operations (snd (sendSettle gen w now p (Resolved a) s)) = p_operations p @ [operation a] \<and>
       cncData (snd (sendSettle gen w now p (Resolved a) s)) =
         Some (gen (a_stock a) (p_operations p @ [operation a]) (a_explanation a)))"
  using assms by (simp add: sendSettle_def commit_result_fields commit_result_output)

text \<open>
  Witness for C2: a second turn, in mode \<^verbatim>\<open>OPTIMIZE\<close>, after the turn of
  \<open>ex_turn1\<close>; once with program text, once without.
\<close>

theorem replace_mode_singleton_witness:
  "p_mode (snd ex_started2) = OPTIMIZE \<and>
   truthy_gcode (optimized_gcode ex_analysis_text) \<and>
   operations (fst ex_started2) = [ex_drill] \<and>
   operations (snd (sendSettle (generateSiemensCode ex_params) 1280 5000 (snd ex_started2)
      (Resolved ex_analysis_text) (fst ex_started2))) = [ex_drill] \<and>
   map_option gcode (cncData (snd (sendSettle (generateSiemensCode ex_params) 1280 5000
      (snd ex_started2) (Resolved ex_analysis_text) (fst ex_started2)))) = Some ''G0 Z50'' \<and>
   \<not> truthy_gcode (optimized_gcode ex_analysis) \<and>
   operations (snd (sendSettle (generateSiemensCode ex_params) 1280 5000 (snd ex_started2)
      (Resolved ex_analysis) (fst ex_started2))) = [ex_drill, ex_drill]"
proof -
  have h: "p_mode (snd ex_started2) = OPTIMIZE"
    by (simp add: ex_started2_def sendStart_fields)
  have t: "truthy_gcode (optimized_gcode ex_analysis_text)"
    by (simp add: truthy_gcode_def ex_analysis_text_def)
  have f: "\<not> truthy_gcode (optimized_gcode ex_analysis)"
    by (simp add: truthy_gcode_def ex_analysis_def)
  have o: "operations (fst ex_started2) = [ex_drill]"
    by (simp add: ex_started2_def sendStart_fields ex_turn1_operations)
  have q: "p_operations (snd ex_started2) = [ex_drill]"
    by (simp add: ex_started2_def sendStart_fields ex_turn1_operations)
  show ?thesis
    using h t f o
      replace_mode_singleton [OF h, where a = ex_analysis_text
        and gen = "generateSiemensCode ex_params" and w = 1280 and now = 5000
        and s = "fst ex_started2"]
      replace_mode_singleton [OF h, where a = ex_analysis
        and gen = "generateSiemensCode ex_params" and w = 1280 and now = 5000
        and s = "fst ex_started2"]
    by (simp add: q) (simp add: ex_analysis_text_def ex_analysis_def)
qed

subsection \<open>Failures of the analysis call\<close>

text \<open>
  Claim C4 as stated fails: the string payload
  \<^verbatim>\<open>"Unexpected token in JSON at position 4"\<close> is not a cancellation, its serialized
  content contains \<^verbatim>\<open>JSON\<close> and neither \<^verbatim>\<open>429\<close> nor \<^verbatim>\<open>quota\<close>, and it is
  surfaced as the generic message, not as the parse-failure message: a string has no
  \<^verbatim>\<open>message\<close> property, and the test for \<^verbatim>\<open>JSON\<close> reads that property.
\<close>

theorem error_mapping_counterexample:
  "is_abort ex_parse_string = Inr False \<and>
   str_includes (the (json_stringify ex_parse_string)) ''JSON'' \<and>
   \<not> str_includes (the (json_stringify ex_parse_string)) ''429'' \<and>
   \<not> str_includes (the (json_stringify ex_parse_string)) ''quota'' \<and>
   fst (ex_failed ex_parse_string) = Returns \<and>
   map msg_text (messages (snd (ex_failed ex_parse_string))) = [''drill a hole'', generic_message] \<and>
   generic_message \<noteq> parse_message"
proof -
  have a: "is_abort ex_parse_string = Inr False"
    by (simp add: is_abort_def ex_parse_string_def)
  have t: "error_text ex_parse_string = Inr generic_message"
    by code_simp
  have j: "str_includes (the (json_stringify ex_parse_string)) ''JSON'' \<and>
   \<not> str_includes (the (json_stringify ex_parse_string)) ''429'' \<and>
   \<not> str_includes (the (json_stringify ex_parse_string)) ''quota''"
    by code_simp
  have n: "generic_message \<noteq> parse_message"
    by (simp add: generic_message_def parse_message_def)
  show ?thesis
    using a j n by (simp add: ex_failed_def error_settle [OF a t] ex_started_messages)
qed

text \<open>
  Claim C4, as the code has it. For a failure payload that is not a cancellation and
  whose \<^verbatim>\<open>message\<close> property is a string or falsy, the turn appends exactly one
  message. Let \<open>shown\<close> be the \<^verbatim>\<open>message\<close> property when it is a non-empty string and
  the generic message otherwise. The text is the quota message if the serialized payload
  contains \<^verbatim>\<open>429\<close> or \<^verbatim>\<open>quota\<close>, or the \<^verbatim>\<open>message\<close> property contains
  \<^verbatim>\<open>429\<close>; otherwise the parse-failure message if \<open>shown\<close> contains \<^verbatim>\<open>JSON\<close>;
  otherwise \<open>shown\<close> itself.
\<close>

theorem error_mapping:
  assumes "is_abort err = Inr False"
    and "get_prop err ''message'' = Inr m"
    and "json_stringify err = Some errStr"
    and "shown = (case m of JStr t \<Rightarrow> if t = [] then generic_message else t | _ \<Rightarrow> generic_message)"
    and "\<not> truthy m \<or> m = JStr shown"
  shows "sendSettle gen w now p (Rejected err) s =
     (Returns, finally_block p (s\<lparr> messages := messages s @
        [\<lparr> msg_id = string_of_nat (now + 1), role = ai,
           msg_text =
             (if str_includes errStr ''429'' \<or> (truthy m \<and> str_includes shown ''429'') \<or>
                 str_includes errStr ''quota''
              then quota_message
              else if str_includes shown ''JSON'' then parse_message else shown),
           msg_attachment = None, cncResult = None \<rparr>] \<rparr>))"
proof -
  have "error_text err =
      Inr (if str_includes errStr ''429'' \<or> (truthy m \<and> str_includes shown ''429'') \<or>
             str_includes errStr ''quota''
           then quota_message
           else if str_includes shown ''JSON'' then parse_message else shown)"
    using assms(2-5) by (cases m) (auto simp: error_text_def Let_def split: bool.splits)
  with assms(1) show ?thesis
    by (rule error_settle)
qed

text \<open>
  Witness for C4: the payload \<^verbatim>\<open>{"code":429}\<close> gives the quota message, an error
  object with the message \<^verbatim>\<open>Unexpected token in JSON at position 4\<close> gives the
  parse-failure message, and the string payload \<^verbatim>\<open>"network down"\<close> gives the generic
  message.
\<close>

theorem error_mapping_witness:
  "map msg_text (messages (snd (ex_failed ex_quota_payload))) = [''drill a hole'', quota_message] \<and>
   map msg_text (messages (snd (ex_failed ex_parse_error))) = [''drill a hole'', parse_message] \<and>
   map msg_text (messages (snd (ex_failed ex_network_string))) = [''drill a hole'', generic_message]"
proof -
  have q1: "is_abort ex_quota_payload = Inr False"
    by (simp add: is_abort_def ex_quota_payload_def)
  have q2: "get_prop ex_quota_payload ''message'' = Inr JUndefined"
    by (simp add: ex_quota_payload_def)
  have q3: "json_stringify ex_quota_payload = Some (the (json_stringify ex_quota_payload))"
    by (simp add: ex_quota_payload_json)
  have q4: "generic_message =
      (case JUndefined of JStr t \<Rightarrow> if t = [] then generic_message else t | _ \<Rightarrow> generic_message)"
    by simp
  have q5: "\<not> truthy JUndefined \<or> JUndefined = JStr generic_message"
    by simp
  have q6: "str_includes (the (json_stringify ex_quota_payload)) ''429''"
    by (simp add: ex_quota_payload_json)
  have p1: "is_abort ex_parse_error = Inr False"
    by (simp add: is_abort_def ex_parse_error_def)
  have p2: "get_prop ex_parse_error ''message'' = Inr (JStr ''Unexpected token in JSON at position 4'')"
    by (simp add: ex_parse_error_def)
  have p3: "json_stringify ex_parse_error = Some (the (json_stringify ex_parse_error))"
    by code_simp
  have p4: "''Unexpected token in JSON at position 4'' =
      (case JStr ''Unexpected token in JSON at position 4'' of
         JStr t \<Rightarrow> if t = [] then generic_message else t | _ \<Rightarrow> generic_message)"
    by simp
  have p5: "\<not> truthy (JStr ''Unexpected token in JSON at position 4'') \<or>
      JStr ''Unexpected token in JSON at position 4'' = JStr ''Unexpected token in JSON at position 4''"
    by simp
  have p6: "\<not> str_includes (the (json_stringify ex_parse_error)) ''429'' \<and>
      \<not> str_includes (the (json_stringify ex_parse_error)) ''quota'' \<and>
      \<not> str_includes ''Unexpected token in JSON at position 4'' ''429'' \<and>
      str_includes ''Unexpected token in JSON at position 4'' ''JSON''"
    by code_simp
  have n1: "is_abort ex_network_string = Inr False"
    by (simp add: is_abort_def ex_network_string_def)
  have n2: "get_prop ex_network_string ''message'' = Inr JUndefined"
    by (simp add: ex_network_string_def)
  have n3: "json_stringify ex_network_string = Some (the (json_stringify ex_network_string))"
    by code_simp
  have n6: "\<not> str_includes (the (json_stringify ex_network_string)) ''429'' \<and>
      \<not> str_includes (the (json_stringify ex_network_string)) ''quota'' \<and>
      \<not> str_includes generic_message ''JSON''"
    by code_simp
  show ?thesis
    using error_mapping [OF q1 q2 q3 q4 q5, where gen = "generateSiemensCode ex_params"
        and w = 1280 and now = 3000 and p = "snd ex_started" and s = "fst ex_started"]
      error_mapping [OF p1 p2 p3 p4 p5, where gen = "generateSiemensCode ex_params"
        and w = 1280 and now = 3000 and p = "snd ex_started" and s = "fst ex_started"]
      error_mapping [OF n1 n2 n3 q4 q5, where gen = "generateSiemensCode ex_params"
        and w = 1280 and now = 3000 and p = "snd ex_started" and s = "fst ex_started"]
      q6 p6 n6
    by (simp add: ex_failed_def ex_started_messages)
qed

section \<open>Properties of the program compiler\<close>

lemma depth_steps_not_empty: "depth_steps z e s \<noteq> []"
  by (subst depth_steps.simps) simp

lemma depth_steps_last: "last (depth_steps z e s) = e"
proof (induction z e s rule: depth_steps.induct)
  case (1 z e s)
  show ?case
  proof (cases "0 < s \<and> e < z - s")
    case True
    with "1" show ?thesis
      by (subst depth_steps.simps) (simp add: depth_steps_not_empty)
  next
    case False
    then show ?thesis
      by (subst depth_steps.simps) auto
  qed
qed

lemma depth_steps_nth:
  "0 < s \<Longrightarrow> Suc i < length (depth_steps z e s) \<Longrightarrow>
   depth_steps z e s ! i = z - of_nat (Suc i) * s \<and> e < depth_steps z e s ! i"
proof (induction z e s arbitrary: i rule: depth_steps.induct)
  case (1 z e s)
  show ?case
  proof (cases "0 < s \<and> e < z - s")
    case True
    then have eq: "depth_steps z e s = (z - s) # depth_steps (z - s) e s"
      by (subst depth_steps.simps) simp
    show ?thesis
    proof (cases i)
      case 0
      with True eq show ?thesis by simp
    next
      case (Suc j)
      with "1.prems" eq have "Suc j < length (depth_steps (z - s) e s)"
        by simp
      with "1.IH" [OF True] "1.prems"(1)
      have "depth_steps (z - s) e s ! j = z - s - of_nat (Suc j) * s \<and>
            e < depth_steps (z - s) e s ! j"
        by blast
      with Suc eq show ?thesis
        by (simp add: algebra_simps)
    qed
  next
    case False
    then have "depth_steps z e s = [e]"
      by (subst depth_steps.simps) auto
    with "1.prems" show ?thesis by simp
  qed
qed

lemma depth_steps_length:
  "0 < s \<Longrightarrow> length (depth_steps z e s) = max 1 (nat \<lceil>(z - e) / s\<rceil>)"
proof (induction z e s rule: depth_steps.induct)
  case (1 z e s)
  show ?case
  proof (cases "0 < s \<and> e < z - s")
    case True
    then have eq: "depth_steps z e s = (z - s) # depth_steps (z - s) e s"
      by (subst depth_steps.simps) simp
    define k where "k = \<lceil>(z - s - e) / s\<rceil>"
    from True have "0 < (z - s - e) / s"
      by simp
    then have c: "0 < k"
      unfolding k_def by simp
    have "(z - e) / s = (z - s - e) / s + 1"
      using True by (simp add: field_simps)
    then have up: "\<lceil>(z - e) / s\<rceil> = k + 1"
      unfolding k_def by simp
    have "length (depth_steps (z - s) e s) = max 1 (nat k)"
      unfolding k_def using "1.IH" [OF True] "1.prems" by simp
    with c show ?thesis
      unfolding eq up by simp
  next
    case False
    with "1.prems" have le: "(z - e) / s \<le> 1"
      by (simp add: field_simps)
    define k where "k = \<lceil>(z - e) / s\<rceil>"
    from le have "k \<le> 1"
      unfolding k_def by simp
    then have "max 1 (nat k) = 1"
      by simp
    moreover from False have "depth_steps z e s = [e]"
      by (subst depth_steps.simps) auto
    ultimately show ?thesis
      unfolding k_def by simp
  qed
qed

lemma plunges_append: "plunges (xs @ ys) = plunges xs @ plunges ys"
  by (induction xs rule: plunges.induct) simp_all

lemma plunges_pecks: "plunges (concat (map (peck cp) zs)) = zs"
  by (induction zs) (simp_all add: peck_def)

lemma plunges_drill_block:
  "op_type op = DRILL \<Longrightarrow>
   plunges (operation_block cp st prev op) =
     (if 0 < step_down op then depth_steps (z_start op) (z_depth op) (step_down op)
      else [z_depth op])"
  by (simp add: operation_block_def translate_def plunges_append plunges_pecks)

text \<open>
  Claim C8: for a drill operation with a positive step-down the compiler emits pecks in
  increments of the step-down from \<open>z_start\<close> towards \<open>z_depth\<close>: every peck but the last
  is a whole number of steps below \<open>z_start\<close> and still above \<open>z_depth\<close>, the last peck is
  exactly \<open>z_depth\<close>, its increment is at most one step, and the number of pecks is the
  ceiling of the depth over the step (one peck when \<open>z_depth\<close> is not below \<open>z_start\<close>).
  With a step-down of zero there is a single plunge to \<open>z_depth\<close>.
\<close>

theorem drill_pecks:
  assumes "op_type op = DRILL"
    and "ps = plunges (operation_block cp st prev op)"
  shows "(0 < step_down op \<longrightarrow>
       ps \<noteq> [] \<and> last ps = z_depth op \<and>
       (\<forall>i. Suc i < length ps \<longrightarrow>
          ps ! i = z_start op - of_nat (Suc i) * step_down op \<and> z_depth op < ps ! i) \<and>
       length ps = max 1 (nat \<lceil>(z_start op - z_depth op) / step_down op\<rceil>) \<and>
       z_start op - of_nat (length ps) * step_down op \<le> z_depth op) \<and>
     (step_down op = 0 \<longrightarrow> ps = [z_depth op])"
proof -
  have zero: "step_down op = 0 \<longrightarrow> ps = [z_depth op]"
    using assms by (simp add: plunges_drill_block)
  have pos: "ps \<noteq> [] \<and> last ps = z_depth op \<and>
       (\<forall>i. Suc i < length ps \<longrightarrow>
          ps ! i = z_start op - of_nat (Suc i) * step_down op \<and> z_depth op < ps ! i) \<and>
       length ps = max 1 (nat \<lceil>(z_start op - z_depth op) / step_down op\<rceil>) \<and>
       z_start op - of_nat (length ps) * step_down op \<le> z_depth op"
    if s: "0 < step_down op"
  proof -
    from assms s have ps: "ps = depth_steps (z_start op) (z_depth op) (step_down op)"
      by (simp add: plunges_drill_block)
    have len: "length ps = max 1 (nat \<lceil>(z_start op - z_depth op) / step_down op\<rceil>)"
      unfolding ps using s by (rule depth_steps_length)
    have "(z_start op - z_depth op) / step_down op
        \<le> of_int \<lceil>(z_start op - z_depth op) / step_down op\<rceil>"
      by (rule le_of_int_ceiling)
    also have "\<dots> \<le> of_nat (length ps)"
      unfolding len by (simp add: max_def) linarith
    finally have "z_start op - z_depth op \<le> of_nat (length ps) * step_down op"
      using s by (simp add: field_simps)
    then have fin: "z_start op - of_nat (length ps) * step_down op \<le> z_depth op"
      by simp
    have nth: "\<forall>i. Suc i < length ps \<longrightarrow>
          ps ! i = z_start op - of_nat (Suc i) * step_down op \<and> z_depth op < ps ! i"
      unfolding ps using depth_steps_nth [OF s] by blast
    have ne: "ps \<noteq> []" and la: "last ps = z_depth op"
      unfolding ps by (rule depth_steps_not_empty, rule depth_steps_last)
    from ne la nth len fin show ?thesis
      by blast
  qed
  from zero pos show ?thesis
    by blast
qed

text \<open>
  Witness for C8: \<open>z_start = 0\<close>, \<open>z_depth = -10\<close>, \<open>step_down = 3\<close> gives four pecks, at
  -3, -6, -9 and -10; the same operation with a step-down of zero gives one plunge.
\<close>

theorem drill_pecks_witness:
  "op_type ex_drill = DRILL \<and> 0 < step_down ex_drill \<and>
   length (plunges (operation_block ex_params ex_stock None ex_drill)) = 4 \<and>
   last (plunges (operation_block ex_params ex_stock None ex_drill)) = - 10 \<and>
   plunges (operation_block ex_params ex_stock None ex_drill) ! 0 = - 3 \<and>
   plunges (operation_block ex_params ex_stock None ex_drill) ! 1 = - 6 \<and>
   plunges (operation_block ex_params ex_stock None ex_drill) ! 2 = - 9 \<and>
   plunges (operation_block ex_params ex_stock None (ex_drill\<lparr> step_down := 0 \<rparr>)) = [- 10]"
proof -
  let ?ps = "plunges (operation_block ex_params ex_stock None ex_drill)"
  have d: "op_type ex_drill = DRILL" and s: "0 < step_down ex_drill"
    by (simp_all add: ex_drill_def)
  have d0: "op_type (ex_drill\<lparr> step_down := 0 \<rparr>) = DRILL"
    by (simp add: ex_drill_def)
  note t = drill_pecks [OF d refl, where cp = ex_params and st = ex_stock and prev = None]
  from t s have la: "last ?ps = z_depth ex_drill"
    and len: "length ?ps = max 1 (nat \<lceil>(z_start ex_drill - z_depth ex_drill) / step_down ex_drill\<rceil>)"
    and nth: "\<forall>i. Suc i < length ?ps \<longrightarrow> ?ps ! i = z_start ex_drill - of_nat (Suc i) * step_down ex_drill"
    by blast+
  have "\<lceil>(10::rat) / 3\<rceil> = 4"
    by (rule ceiling_unique) simp_all
  with len have l4: "length ?ps = 4"
    by (simp add: ex_drill_def)
  from nth l4 have "?ps ! 0 = - 3" and "?ps ! 1 = - 6" and "?ps ! 2 = - 9"
    by (simp_all add: ex_drill_def)
  moreover have "plunges (operation_block ex_params ex_stock None (ex_drill\<lparr> step_down := 0 \<rparr>)) = [- 10]"
    using drill_pecks [OF d0 refl, where cp = ex_params and st = ex_stock and prev = None]
    by (simp add: ex_drill_def)
  ultimately show ?thesis
    using d s la l4 by (simp add: ex_drill_def)
qed

section \<open>Accumulate mode\<close>








end
